theory Spec2Isabelle
  imports Complex_Main "HOL-Library.Sublist"
begin

section \<open>JavaScript values and strings\<close>

text \<open>
  The route handler works on untyped JSON (\<open>any\<close>): values are modelled as a datatype with
  \<open>undefined\<close> for an absent property. A number is a double: a finite value, which is a
  rational, an infinity, or \<open>NaN\<close> (what \<open>parseFloat\<close> gives on text that is no number).
  The arithmetic of doubles rounds and overflows; it is not defined here but taken from the
  environment of the handler, as the conversions between numbers and text are. An object is
  an association list.
  A string is a list of code units; the development reads \<open>char\<close> as a code unit below 256.
\<close>

datatype jsnum = NaN | PosInf | NegInf | Fin rat

datatype jsval =
    JUndefined
  | JNull
  | JBool bool
  | JNum jsnum
  | JStr string
  | JArr "jsval list"
  | JObj "(string \<times> jsval) list"

text \<open>JavaScript truthiness: \<open>undefined\<close>, \<open>null\<close>, \<open>false\<close>, \<open>0\<close>, \<open>NaN\<close> and \<open>""\<close> are falsy.\<close>

fun truthy :: "jsval \<Rightarrow> bool" where
  "truthy JUndefined = False"
| "truthy JNull = False"
| "truthy (JBool b) = b"
| "truthy (JNum NaN) = False"
| "truthy (JNum PosInf) = True"
| "truthy (JNum NegInf) = True"
| "truthy (JNum (Fin r)) = (r \<noteq> 0)"
| "truthy (JStr s) = (s \<noteq> [])"
| "truthy (JArr _) = True"
| "truthy (JObj _) = True"

text \<open>\<open>a || b\<close>: the left operand when it is truthy, otherwise the right one.\<close>

definition js_or :: "jsval \<Rightarrow> jsval \<Rightarrow> jsval" where
  "js_or a b = (if truthy a then a else b)"

text \<open>\<open>x?.f\<close>: \<open>undefined\<close> when \<open>x\<close> is absent, the field otherwise.\<close>

definition opt_field :: "('a \<Rightarrow> jsval) \<Rightarrow> 'a option \<Rightarrow> jsval" where
  "opt_field f x = (case x of None \<Rightarrow> JUndefined | Some c \<Rightarrow> f c)"

text \<open>White space as \<open>String.prototype.trim\<close> and the regular expression class \<open>\s\<close> see it
  (TAB, LF, VT, FF, CR, SP, NBSP), and the word characters of \<open>\w\<close>.\<close>

definition is_ws :: "char \<Rightarrow> bool" where
  "is_ws c = (of_char c \<in> {9, 10, 11, 12, 13, 32, 160 :: nat})"

definition is_word :: "char \<Rightarrow> bool" where
  "is_word c = (let n = (of_char c :: nat) in
     (48 \<le> n \<and> n \<le> 57) \<or> (65 \<le> n \<and> n \<le> 90) \<or> (97 \<le> n \<and> n \<le> 122) \<or> n = 95)"

definition trim :: "string \<Rightarrow> string" where
  "trim s = rev (dropWhile is_ws (rev (dropWhile is_ws s)))"

definition startsWith :: "string \<Rightarrow> string \<Rightarrow> bool" where
  "startsWith s p = (take (length p) s = p)"

fun includes_str :: "string \<Rightarrow> string \<Rightarrow> bool" where
  "includes_str [] sub = (sub = [])"
| "includes_str (c # cs) sub = (startsWith (c # cs) sub \<or> includes_str cs sub)"

definition substring0 :: "string \<Rightarrow> nat \<Rightarrow> string" where
  "substring0 s n = take n s"

section \<open>Errors\<close>

text \<open>A thrown value: the fields the code reads are \<open>code\<close> and \<open>message\<close>.\<close>

record jserror =
  e_code :: "string option"
  e_message :: "string option"

definition TypeError :: "string \<Rightarrow> jserror" where
  "TypeError m = \<lparr>e_code = None, e_message = Some m\<rparr>"

section \<open>Raw places\<close>

text \<open>
  A feature of the provider's response. The code reads \<open>company.properties\<close> without a
  guard and every deeper block with \<open>?.\<close>: \<open>properties\<close> is a field, the blocks under it are
  optional. An absent leaf is \<open>JUndefined\<close>.
\<close>

record contact =
  c_email :: jsval
  c_website :: jsval

record raw =
  r_contact :: "contact option"
  r_contact_email :: jsval
  r_contact_website :: jsval
  r_website :: jsval

record datasource =
  d_raw :: "raw option"

record properties =
  p_contact :: "contact option"
  p_datasource :: "datasource option"
  p_name :: jsval
  p_formatted :: jsval
  p_lat :: jsval
  p_lon :: jsval

record place =
  properties :: properties

text \<open>\<open>company.properties.datasource?.raw\<close>\<close>

definition datasource_raw :: "place \<Rightarrow> raw option" where
  "datasource_raw company =
     (case p_datasource (properties company) of None \<Rightarrow> None | Some d \<Rightarrow> d_raw d)"

text \<open>\<open>company.properties.datasource?.raw?.contact\<close>\<close>

definition datasource_raw_contact :: "place \<Rightarrow> contact option" where
  "datasource_raw_contact company =
     (case datasource_raw company of None \<Rightarrow> None | Some r \<Rightarrow> r_contact r)"

subsection \<open>Email filter and field extraction\<close>

text \<open>The three email locations and the four website locations, as the code writes them.\<close>

definition email_contact :: "place \<Rightarrow> jsval" where
  "email_contact company = opt_field c_email (p_contact (properties company))"

definition email_raw_contact :: "place \<Rightarrow> jsval" where
  "email_raw_contact company = opt_field c_email (datasource_raw_contact company)"

definition email_raw_flat :: "place \<Rightarrow> jsval" where
  "email_raw_flat company = opt_field r_contact_email (datasource_raw company)"

definition website_contact :: "place \<Rightarrow> jsval" where
  "website_contact company = opt_field c_website (p_contact (properties company))"

definition website_raw_contact :: "place \<Rightarrow> jsval" where
  "website_raw_contact company = opt_field c_website (datasource_raw_contact company)"

definition website_raw_flat :: "place \<Rightarrow> jsval" where
  "website_raw_flat company = opt_field r_contact_website (datasource_raw company)"

definition website_raw_plain :: "place \<Rightarrow> jsval" where
  "website_raw_plain company = opt_field r_website (datasource_raw company)"

text \<open>The arrow function given to \<open>companies.filter\<close>.\<close>

definition hasEmail :: "place \<Rightarrow> jsval" where
  "hasEmail company =
     js_or (js_or (email_contact company) (email_raw_contact company)) (email_raw_flat company)"

definition filterCompaniesWithEmails :: "place list \<Rightarrow> place list" where
  "filterCompaniesWithEmails companies = filter (\<lambda>company. truthy (hasEmail company)) companies"

definition extractEmail :: "place \<Rightarrow> jsval" where
  "extractEmail company =
     js_or (js_or (js_or (email_contact company) (email_raw_contact company))
                  (email_raw_flat company)) JNull"

definition extractWebsite :: "place \<Rightarrow> jsval" where
  "extractWebsite company =
     js_or (js_or (js_or (js_or (website_contact company) (website_raw_contact company))
                         (website_raw_flat company)) (website_raw_plain company)) JNull"

section \<open>HTML content extraction\<close>

text \<open>
  The parsed page as the code reads it through the selector library: the \<open>text()\<close> of the
  elements each selector matches, in document order, and the \<open>content\<close> attribute of the
  description \<open>meta\<close> element (absent when there is no such element or attribute).
\<close>

record document =
  doc_p :: "string list"
  doc_meta :: "string option"
  doc_h :: "string list"
  doc_content_divs :: "string list"
  doc_divs :: "string list"

text \<open>\<open>$(sel).filter(function() { return $(this).text().trim().length > n; })\<close>\<close>

definition longer_than :: "nat \<Rightarrow> string list \<Rightarrow> string list" where
  "longer_than n ts = filter (\<lambda>t. length (trim t) > n) ts"

text \<open>\<open>set.first().text().trim()\<close>: the empty string on an empty selection.\<close>

definition first_trimmed :: "string list \<Rightarrow> string" where
  "first_trimmed ts = (case ts of [] \<Rightarrow> [] | t # _ \<Rightarrow> trim t)"

definition extractContent :: "document \<Rightarrow> string" where
  "extractContent d =
     (let paragraphs = longer_than 30 (doc_p d) in
      if length paragraphs > 0 then first_trimmed paragraphs
      else
        let metaDescription = doc_meta d in
        if (case metaDescription of None \<Rightarrow> False | Some m \<Rightarrow> m \<noteq> [] \<and> length m > 20)
        then (case metaDescription of None \<Rightarrow> [] | Some m \<Rightarrow> trim m)
        else
          let headings = longer_than 10 (doc_h d) in
          if length headings > 0 then first_trimmed headings
          else
            let contentDivs = longer_than 40 (doc_content_divs d) in
            if length contentDivs > 0 then substring0 (first_trimmed contentDivs) 300
            else
              let anyDiv = first_trimmed (longer_than 40 (doc_divs d)) in
              if anyDiv \<noteq> [] then anyDiv else ''No meaningful content found'')"

section \<open>Scraping with retries\<close>

definition SCRAPE_TIMEOUT_MS :: nat where
  "SCRAPE_TIMEOUT_MS = 15000"

definition maxAttempts :: nat where
  "maxAttempts = 3"

text \<open>What the scraper does to the outside: a GET with its timeout, a wait in milliseconds.\<close>

datatype event = AxiosGet string nat | Wait nat

definition formatUrl :: "string \<Rightarrow> string" where
  "formatUrl url = (if startsWith url ''http'' then url else ''https://'' @ url)"

text \<open>\<open>error.code === 'ECONNABORTED' || error.message?.includes('timeout')\<close>\<close>

definition isRetryable :: "jserror \<Rightarrow> bool" where
  "isRetryable error =
     (e_code error = Some ''ECONNABORTED'' \<or>
      (case e_message error of None \<Rightarrow> False | Some m \<Rightarrow> includes_str m ''timeout''))"

text \<open>
  The \<open>for\<close> loop. \<open>get url attempt\<close> is the body of the \<open>try\<close> up to the parsed page: the
  request, which may reject, and the parse of the response. The result is \<open>Inl\<close> for a
  \<open>return\<close> inside the loop and \<open>Inr lastError\<close> when the loop is left.
\<close>

function scrapeLoop ::
  "(string \<Rightarrow> nat \<Rightarrow> jserror + document) \<Rightarrow> string \<Rightarrow> nat \<Rightarrow> jserror option
     \<Rightarrow> (string + jserror option) \<times> event list" where
  "scrapeLoop get formattedUrl attempt lastError =
     (if attempt \<le> maxAttempts then
        (case get formattedUrl attempt of
           Inr d \<Rightarrow> (Inl (extractContent d), [AxiosGet formattedUrl SCRAPE_TIMEOUT_MS])
         | Inl error \<Rightarrow>
             if isRetryable error \<and> attempt < maxAttempts then
               (case scrapeLoop get formattedUrl (attempt + 1) (Some error) of
                  (r, evs) \<Rightarrow> (r, AxiosGet formattedUrl SCRAPE_TIMEOUT_MS # Wait 1000 # evs))
             else (Inr (Some error), [AxiosGet formattedUrl SCRAPE_TIMEOUT_MS]))
      else (Inr lastError, []))"
  by pat_completeness auto
termination
  by (relation "measure (\<lambda>(get, u, attempt, e). Suc maxAttempts - attempt)") auto

declare scrapeLoop.simps [simp del]

text \<open>The URLs requested by a run of the scraper, in order.\<close>

fun requested :: "event list \<Rightarrow> string list" where
  "requested [] = []"
| "requested (AxiosGet u t # evs) = u # requested evs"
| "requested (Wait ms # evs) = requested evs"

text \<open>The message interpolated into the failure string; an absent message prints as
  \<open>undefined\<close>.\<close>

definition message_text :: "jserror \<Rightarrow> string" where
  "message_text e = (case e_message e of None \<Rightarrow> ''undefined'' | Some m \<Rightarrow> m)"

text \<open>The result is \<open>null\<close> (\<open>None\<close>) or a string; reading \<open>message\<close> of a \<open>null\<close>
  \<open>lastError\<close> would throw.\<close>

definition scrapeWebsite ::
  "(string \<Rightarrow> nat \<Rightarrow> jserror + document) \<Rightarrow> string
     \<Rightarrow> (jserror + string option) \<times> event list" where
  "scrapeWebsite get url =
     (if url = [] then (Inr None, [])
      else
        (case scrapeLoop get (formatUrl url) 1 None of
           (Inl content, evs) \<Rightarrow> (Inr (Some content), evs)
         | (Inr (Some lastError), evs) \<Rightarrow>
             (Inr (Some (''Failed to scrape: '' @ message_text lastError)), evs)
         | (Inr None, evs) \<Rightarrow>
             (Inl (TypeError ''Cannot read properties of null (reading message)''), evs)))"

section \<open>Decoding the scrape result for display\<close>

record scrape_status =
  success :: bool
  errorCode :: "string option"

text \<open>
  \<open>content.match(/ERROR:\s*(\w+)/)\<close>: the leftmost position where \<open>ERROR:\<close>, any white
  space and at least one word character follow each other; the group is the longest run of
  word characters there. No white space is a word character, so a shorter match of \<open>\s*\<close>
  never succeeds where the longest fails.
\<close>

fun errorMatch :: "string \<Rightarrow> string option" where
  "errorMatch [] = None"
| "errorMatch (c # cs) =
     (if startsWith (c # cs) ''ERROR:'' \<and>
         takeWhile is_word (dropWhile is_ws (drop 6 (c # cs))) \<noteq> []
      then Some (takeWhile is_word (dropWhile is_ws (drop 6 (c # cs))))
      else errorMatch cs)"

definition getScrapeStatus :: "string option \<Rightarrow> scrape_status" where
  "getScrapeStatus content =
     (case content of
        None \<Rightarrow> \<lparr>success = False, errorCode = Some ''NOT_ATTEMPTED''\<rparr>
      | Some c \<Rightarrow>
          if includes_str c ''ERROR:'' then
            \<lparr>success = False,
             errorCode = Some (case errorMatch c of Some w \<Rightarrow> w | None \<Rightarrow> ''UNKNOWN'')\<rparr>
          else if trim c = [] then \<lparr>success = False, errorCode = Some ''EMPTY_CONTENT''\<rparr>
          else \<lparr>success = True, errorCode = None\<rparr>)"

section \<open>The places provider\<close>

record places_request =
  rq_url :: string
  rq_categories :: string
  rq_filter :: string
  rq_bias :: string
  rq_limit :: nat
  rq_apiKey :: string

text \<open>\<open>response.data.features\<close>: \<open>data\<close> may be absent (reading \<open>features\<close> then throws),
  and \<open>features\<close> may be absent or no array (\<open>None\<close>).\<close>

record places_data =
  pd_features :: "place list option"

record places_response =
  rs_data :: "places_data option"

text \<open>
  The world outside the handler: the conversion of a value to a string (template literals
  and \<open>toString()\<close>), \<open>parseFloat\<close>, the product \<open>a * b\<close> of two doubles, the places
  provider, and the web sites, which answer the scrape of the company at a position, for a
  URL, at an attempt.
\<close>

record env =
  toString :: "jsval \<Rightarrow> jserror + string"
  parseFloat :: "string \<Rightarrow> jsnum"
  times :: "jsnum \<Rightarrow> jsnum \<Rightarrow> jsnum"
  places_api :: "places_request \<Rightarrow> jserror + places_response"
  site :: "nat \<Rightarrow> string \<Rightarrow> nat \<Rightarrow> jserror + document"

definition GEOAPIFY_API_KEY :: string where
  "GEOAPIFY_API_KEY = ''7d07e1bb510e404a851a8ac48b033c88''"

text \<open>A template literal: literal text (\<open>Inl\<close>) and interpolated values (\<open>Inr\<close>), converted
  from left to right.\<close>

fun template :: "(jsval \<Rightarrow> jserror + string) \<Rightarrow> (string + jsval) list \<Rightarrow> jserror + string" where
  "template ts [] = Inr []"
| "template ts (Inl s # ps) =
     (case template ts ps of Inl e \<Rightarrow> Inl e | Inr r \<Rightarrow> Inr (s @ r))"
| "template ts (Inr v # ps) =
     (case ts v of
        Inl e \<Rightarrow> Inl e
      | Inr s \<Rightarrow> (case template ts ps of Inl e \<Rightarrow> Inl e | Inr r \<Rightarrow> Inr (s @ r)))"

text \<open>The body of the \<open>try\<close>, with the requests it has issued.\<close>

definition fetchNearbyCompanies_try ::
  "env \<Rightarrow> jsval \<Rightarrow> jsval \<Rightarrow> jsnum \<Rightarrow> (jserror + place list option) \<times> places_request list" where
  "fetchNearbyCompanies_try env lat lon radiusKm =
     (let radiusMeters = JNum (times env radiusKm (Fin 1000)) in
      case template (toString env)
             [Inl ''Making API request with radius: '', Inr radiusMeters, Inl '' meters''] of
        Inl e \<Rightarrow> (Inl e, [])
      | Inr _ \<Rightarrow>
      (case template (toString env)
              [Inl ''circle:'', Inr lon, Inl '','', Inr lat, Inl '','', Inr radiusMeters] of
         Inl e \<Rightarrow> (Inl e, [])
       | Inr flt \<Rightarrow>
       (case template (toString env) [Inl ''proximity:'', Inr lon, Inl '','', Inr lat] of
          Inl e \<Rightarrow> (Inl e, [])
        | Inr bias \<Rightarrow>
            (let rq = \<lparr>rq_url = ''https://api.geoapify.com/v2/places'',
                       rq_categories = ''commercial'', rq_filter = flt, rq_bias = bias,
                       rq_limit = 500, rq_apiKey = GEOAPIFY_API_KEY\<rparr> in
             case places_api env rq of
               Inl e \<Rightarrow> (Inl e, [rq])
             | Inr response \<Rightarrow>
                 (case rs_data response of
                    None \<Rightarrow> (Inl (TypeError ''Cannot read properties of undefined''), [rq])
                  | Some d \<Rightarrow> (Inr (pd_features d), [rq]))))))"

text \<open>The \<open>catch\<close> turns every error into the empty array.\<close>

definition fetchNearbyCompanies ::
  "env \<Rightarrow> jsval \<Rightarrow> jsval \<Rightarrow> jsnum \<Rightarrow> (jserror + place list option) \<times> places_request list" where
  "fetchNearbyCompanies env lat lon radiusKm =
     (case fetchNearbyCompanies_try env lat lon radiusKm of
        (Inl error, rqs) \<Rightarrow> (Inr (Some []), rqs)
      | (Inr fs, rqs) \<Rightarrow> (Inr fs, rqs))"

section \<open>The POST handler\<close>

record company =
  cr_name :: jsval
  cr_address :: jsval
  cr_lat :: jsval
  cr_lon :: jsval
  cr_website :: jsval
  cr_email :: jsval
  cr_scrapedContent :: "string option"

datatype response_body = ErrorBody string | CompaniesBody "company list" | MessageBody string

record http_response =
  status :: nat
  body :: response_body

text \<open>One name of the destructuring pattern: \<open>undefined\<close> and \<open>null\<close> cannot be
  destructured, an object gives the property or \<open>undefined\<close>, any other value has none of
  the three names.\<close>

definition destructure :: "jsval \<Rightarrow> string \<Rightarrow> jserror + jsval" where
  "destructure b k =
     (case b of
        JUndefined \<Rightarrow> Inl (TypeError ''Cannot destructure undefined'')
      | JNull \<Rightarrow> Inl (TypeError ''Cannot destructure null'')
      | JObj kvs \<Rightarrow> Inr (case map_of kvs k of None \<Rightarrow> JUndefined | Some v \<Rightarrow> v)
      | _ \<Rightarrow> Inr JUndefined)"

text \<open>The callback of \<open>companiesWithEmails.map\<close>, for the company at position \<open>i\<close>. A truthy
  website that is no string has no \<open>startsWith\<close>: the scraper throws before its \<open>try\<close>.\<close>

definition processCompany :: "env \<Rightarrow> nat \<Rightarrow> place \<Rightarrow> jserror + company" where
  "processCompany env i c =
     (let website = extractWebsite c; email = extractEmail c in
      case (if truthy website then
              (case website of
                 JStr url \<Rightarrow> fst (scrapeWebsite (site env i) url)
               | _ \<Rightarrow> Inl (TypeError ''url.startsWith is not a function''))
            else Inr None) of
        Inl e \<Rightarrow> Inl e
      | Inr scrapedContent \<Rightarrow>
          Inr \<lparr>cr_name = p_name (properties c), cr_address = p_formatted (properties c),
               cr_lat = p_lat (properties c), cr_lon = p_lon (properties c),
               cr_website = website, cr_email = email, cr_scrapedContent = scrapedContent\<rparr>)"

text \<open>\<open>Promise.all\<close>: the results at the positions of the promises, or a rejection when one
  of them rejects.\<close>

fun promise_all :: "(jserror + 'a) list \<Rightarrow> jserror + 'a list" where
  "promise_all [] = Inr []"
| "promise_all (Inl e # ps) = Inl e"
| "promise_all (Inr v # ps) =
     (case promise_all ps of Inl e \<Rightarrow> Inl e | Inr vs \<Rightarrow> Inr (v # vs))"

text \<open>Filtering and the concurrent processing of the survivors.\<close>

definition processCompanies :: "env \<Rightarrow> place list \<Rightarrow> jserror + company list" where
  "processCompanies env companies =
     (let companiesWithEmails = filterCompaniesWithEmails companies in
      promise_all (map (\<lambda>(i, c). processCompany env i c) (enumerate 0 companiesWithEmails)))"

text \<open>\<open>parseFloat(radius.toString())\<close>, after the default \<open>2.5\<close> for an absent radius.\<close>

definition radiusKm_of :: "env \<Rightarrow> jsval \<Rightarrow> jserror + jsnum" where
  "radiusKm_of env r =
     (let radius = (if r = JUndefined then JNum (Fin (5 / 2)) else r) in
      if radius = JNull then Inl (TypeError ''Cannot read properties of null'')
      else (case toString env radius of Inl e \<Rightarrow> Inl e | Inr s \<Rightarrow> Inr (parseFloat env s)))"

text \<open>The body of the handler's \<open>try\<close>; \<open>request_json\<close> is the outcome of
  \<open>request.json()\<close>.\<close>

definition POST_try :: "env \<Rightarrow> jserror + jsval \<Rightarrow> jserror + http_response" where
  "POST_try env request_json =
     (case request_json of
        Inl e \<Rightarrow> Inl e
      | Inr b \<Rightarrow>
      (case destructure b ''latitude'' of
         Inl e \<Rightarrow> Inl e
       | Inr latitude \<Rightarrow>
       (case destructure b ''longitude'' of
          Inl e \<Rightarrow> Inl e
        | Inr longitude \<Rightarrow>
        (case destructure b ''radius'' of
           Inl e \<Rightarrow> Inl e
         | Inr radius \<Rightarrow>
             if \<not> truthy latitude \<or> \<not> truthy longitude then
               Inr \<lparr>status = 400, body = ErrorBody ''Latitude and longitude are required''\<rparr>
             else
               (case radiusKm_of env radius of
                  Inl e \<Rightarrow> Inl e
                | Inr radiusKm \<Rightarrow>
                    (case fst (fetchNearbyCompanies env latitude longitude radiusKm) of
                       Inl e \<Rightarrow> Inl e
                     | Inr None \<Rightarrow> Inl (TypeError ''companies.filter is not a function'')
                     | Inr (Some companies) \<Rightarrow>
                         (case processCompanies env companies of
                            Inl e \<Rightarrow> Inl e
                          | Inr processedCompanies \<Rightarrow>
                              Inr \<lparr>status = 200,
                                   body = CompaniesBody processedCompanies\<rparr>)))))))"

definition POST :: "env \<Rightarrow> jserror + jsval \<Rightarrow> http_response" where
  "POST env request_json =
     (case POST_try env request_json of
        Inl error \<Rightarrow> \<lparr>status = 500, body = ErrorBody ''Failed to process request''\<rparr>
      | Inr response \<Rightarrow> response)"

section \<open>Example data\<close>

text \<open>Three places as the provider returns them: the first with an email at two locations
  and a website at two, the second with an empty email only, the third with an email under
  the flattened key and no website.\<close>

definition ex_place_a :: place where
  "ex_place_a = \<lparr>properties = \<lparr>
     p_contact = Some \<lparr>c_email = JStr ''info@alpha.example'', c_website = JUndefined\<rparr>,
     p_datasource = Some \<lparr>d_raw = Some \<lparr>r_contact = None,
        r_contact_email = JStr ''old@alpha.example'',
        r_contact_website = JStr ''alpha.example'',
        r_website = JStr ''http://www.alpha.example''\<rparr>\<rparr>,
     p_name = JStr ''Alpha'', p_formatted = JStr ''Alphastr. 1, Berlin'',
     p_lat = JNum (Fin (5252 / 100)), p_lon = JNum (Fin (13405 / 1000))\<rparr>\<rparr>"

definition ex_place_b :: place where
  "ex_place_b = \<lparr>properties = \<lparr>
     p_contact = Some \<lparr>c_email = JStr [], c_website = JStr ''beta.example''\<rparr>,
     p_datasource = None,
     p_name = JStr ''Beta'', p_formatted = JStr ''Betastr. 2, Berlin'',
     p_lat = JNum (Fin (5253 / 100)), p_lon = JNum (Fin (13406 / 1000))\<rparr>\<rparr>"

definition ex_place_c :: place where
  "ex_place_c = \<lparr>properties = \<lparr>
     p_contact = None,
     p_datasource = Some \<lparr>d_raw = Some \<lparr>r_contact = None,
        r_contact_email = JStr ''mail@gamma.example'',
        r_contact_website = JUndefined, r_website = JUndefined\<rparr>\<rparr>,
     p_name = JUndefined, p_formatted = JStr ''Gammastr. 3, Berlin'',
     p_lat = JNum (Fin (5254 / 100)), p_lon = JNum (Fin (13407 / 1000))\<rparr>\<rparr>"

text \<open>Three more places: one with an email and a website under the raw contact block (and
  websites at the two lower locations), one with emails at the second and third location and
  websites at all four, one with no email and a website in the plain raw field only.\<close>

definition ex_place_d :: place where
  "ex_place_d = \<lparr>properties = \<lparr>
     p_contact = None,
     p_datasource = Some \<lparr>d_raw = Some \<lparr>
        r_contact = Some \<lparr>c_email = JStr ''office@delta.example'',
                         c_website = JStr ''https://delta.example''\<rparr>,
        r_contact_email = JUndefined,
        r_contact_website = JStr ''delta-flat.example'',
        r_website = JStr ''delta-plain.example''\<rparr>\<rparr>,
     p_name = JStr ''Delta'', p_formatted = JStr ''Deltastr. 4, Berlin'',
     p_lat = JNum (Fin (5255 / 100)), p_lon = JNum (Fin (13408 / 1000))\<rparr>\<rparr>"

definition ex_place_e :: place where
  "ex_place_e = \<lparr>properties = \<lparr>
     p_contact = Some \<lparr>c_email = JUndefined, c_website = JStr ''https://epsilon.example''\<rparr>,
     p_datasource = Some \<lparr>d_raw = Some \<lparr>
        r_contact = Some \<lparr>c_email = JStr ''hello@epsilon.example'',
                         c_website = JStr ''epsilon-raw.example''\<rparr>,
        r_contact_email = JStr ''flat@epsilon.example'',
        r_contact_website = JStr ''epsilon-flat.example'',
        r_website = JStr ''epsilon-plain.example''\<rparr>\<rparr>,
     p_name = JStr ''Epsilon'', p_formatted = JStr ''Epsilonstr. 5, Berlin'',
     p_lat = JNum (Fin (5256 / 100)), p_lon = JNum (Fin (13409 / 1000))\<rparr>\<rparr>"

definition ex_place_f :: place where
  "ex_place_f = \<lparr>properties = \<lparr>
     p_contact = Some \<lparr>c_email = JNull, c_website = JStr []\<rparr>,
     p_datasource = Some \<lparr>d_raw = Some \<lparr>
        r_contact = None,
        r_contact_email = JUndefined,
        r_contact_website = JUndefined,
        r_website = JStr ''zeta.example''\<rparr>\<rparr>,
     p_name = JStr ''Zeta'', p_formatted = JStr ''Zetastr. 6, Berlin'',
     p_lat = JNum (Fin (5257 / 100)), p_lon = JNum (Fin (13410 / 1000))\<rparr>\<rparr>"

definition ex_places :: "place list" where
  "ex_places = [ex_place_a, ex_place_b, ex_place_c, ex_place_d, ex_place_e, ex_place_f]"

text \<open>Pages: one with a long paragraph and a description, one with a description only, one
  with a heading, one with a content block of more than 300 characters, one with a plain
  block, and one whose description is 25 blanks.\<close>

definition ex_page :: document where
  "ex_page = \<lparr>doc_p = [''Short.'', ''  We repair bicycles in Berlin since 1990. ''],
     doc_meta = Some ''Bicycle repair shop in Berlin'', doc_h = [''Alpha Bikes Berlin''],
     doc_content_divs = [], doc_divs = []\<rparr>"

definition ex_page_meta :: document where
  "ex_page_meta = \<lparr>doc_p = [''Welcome''],
     doc_meta = Some ''Bicycle repair in Berlin '', doc_h = [''Alpha Bikes Berlin''],
     doc_content_divs = [], doc_divs = []\<rparr>"

definition ex_page_heading :: document where
  "ex_page_heading = \<lparr>doc_p = [''Welcome''],
     doc_meta = Some ''Bikes'', doc_h = [''Home'', '' Alpha Bikes Berlin ''],
     doc_content_divs = [''Menu''], doc_divs = [''Menu'']\<rparr>"

definition ex_page_content_div :: document where
  "ex_page_content_div = \<lparr>doc_p = [], doc_meta = None, doc_h = [''Home''],
     doc_content_divs = [''Menu'', ''  '' @ replicate 320 (CHR ''a'') @ '' ''],
     doc_divs = [''This block comes first in the page but has no content class'',
                 ''Menu'', ''  '' @ replicate 320 (CHR ''a'') @ '' '']\<rparr>"

definition ex_page_any_div :: document where
  "ex_page_any_div = \<lparr>doc_p = [], doc_meta = None, doc_h = [],
     doc_content_divs = [''Menu''],
     doc_divs = [''Menu'', '' Opening hours: Monday to Friday from 9 to 18 '']\<rparr>"

definition ex_page_blank_meta :: document where
  "ex_page_blank_meta = \<lparr>doc_p = [], doc_meta = Some (replicate 25 (CHR '' '')),
     doc_h = [''Alpha Bikes Berlin''], doc_content_divs = [], doc_divs = []\<rparr>"

text \<open>Errors as the HTTP client reports them: its own timeout, a connection reset by the
  remote host, a connection attempt that the operating system has timed out, and a response
  with status 404.\<close>

definition err_timeout :: jserror where
  "err_timeout =
     \<lparr>e_code = Some ''ECONNABORTED'', e_message = Some ''timeout of 15000ms exceeded''\<rparr>"

definition err_reset :: jserror where
  "err_reset = \<lparr>e_code = Some ''ECONNRESET'', e_message = Some ''read ECONNRESET''\<rparr>"

definition err_connect_timeout :: jserror where
  "err_connect_timeout =
     \<lparr>e_code = Some ''ETIMEDOUT'', e_message = Some ''connect ETIMEDOUT 203.0.113.7:443''\<rparr>"

definition err_404 :: jserror where
  "err_404 =
     \<lparr>e_code = Some ''ERR_BAD_REQUEST'',
      e_message = Some ''Request failed with status code 404''\<rparr>"

text \<open>An environment for the query \<open>{latitude: 52.52, longitude: 13.405, radius: 2}\<close>.\<close>

definition ex_toString :: "jsval \<Rightarrow> jserror + string" where
  "ex_toString v =
     (if v = JNum (Fin (5252 / 100)) then Inr ''52.52''
      else if v = JNum (Fin (13405 / 1000)) then Inr ''13.405''
      else if v = JNum (Fin 2) then Inr ''2''
      else if v = JNum (Fin 2000) then Inr ''2000''
      else Inl (TypeError ''Cannot convert object to primitive value''))"

text \<open>The one product the query asks for, \<open>2 * 1000\<close>, which is exact in doubles.\<close>

definition ex_times :: "jsnum \<Rightarrow> jsnum \<Rightarrow> jsnum" where
  "ex_times a b = (if a = Fin 2 \<and> b = Fin 1000 then Fin 2000 else NaN)"

definition ex_env :: env where
  "ex_env = \<lparr>toString = ex_toString,
     parseFloat = (\<lambda>s. if s = ''2'' then Fin 2 else NaN),
     times = ex_times,
     places_api = (\<lambda>rq. Inr \<lparr>rs_data =
        Some \<lparr>pd_features = Some [ex_place_a, ex_place_b, ex_place_c]\<rparr>\<rparr>),
     site = (\<lambda>i url attempt. Inr ex_page)\<rparr>"

definition ex_env_down :: env where
  "ex_env_down = ex_env\<lparr>places_api :=
     (\<lambda>rq. Inl \<lparr>e_code = Some ''ERR_BAD_RESPONSE'',
                 e_message = Some ''Request failed with status code 503''\<rparr>)\<rparr>"

definition ex_request :: "jserror + jsval" where
  "ex_request = Inr (JObj [(''latitude'', JNum (Fin (5252 / 100))),
      (''longitude'', JNum (Fin (13405 / 1000))), (''radius'', JNum (Fin 2))])"

definition ex_records :: "company list" where
  "ex_records =
     [\<lparr>cr_name = JStr ''Alpha'', cr_address = JStr ''Alphastr. 1, Berlin'',
       cr_lat = JNum (Fin (5252 / 100)), cr_lon = JNum (Fin (13405 / 1000)),
       cr_website = JStr ''alpha.example'', cr_email = JStr ''info@alpha.example'',
       cr_scrapedContent = Some ''We repair bicycles in Berlin since 1990.''\<rparr>,
      \<lparr>cr_name = JUndefined, cr_address = JStr ''Gammastr. 3, Berlin'',
       cr_lat = JNum (Fin (5254 / 100)), cr_lon = JNum (Fin (13407 / 1000)),
       cr_website = JNull, cr_email = JStr ''mail@gamma.example'',
       cr_scrapedContent = None\<rparr>]"

section \<open>Field extraction and the email filter\<close>

lemma hasEmail_truthy:
  "truthy (hasEmail c) \<longleftrightarrow>
     truthy (email_contact c) \<or> truthy (email_raw_contact c) \<or> truthy (email_raw_flat c)"
  by (simp add: hasEmail_def js_or_def)

lemma extractEmail_hasEmail: "truthy (hasEmail c) \<Longrightarrow> extractEmail c = hasEmail c"
  by (simp add: extractEmail_def hasEmail_def js_or_def)

lemma extractEmail_first_truthy:
  "extractEmail c =
     (if truthy (email_contact c) then email_contact c
      else if truthy (email_raw_contact c) then email_raw_contact c
      else if truthy (email_raw_flat c) then email_raw_flat c
      else JNull)"
  by (simp add: extractEmail_def js_or_def)

text \<open>The locations in terms of the fields of the place.\<close>

lemma email_locations:
  "email_contact company =
     (case p_contact (properties company) of None \<Rightarrow> JUndefined | Some c \<Rightarrow> c_email c)"
  "email_raw_contact company =
     (case p_datasource (properties company) of
        None \<Rightarrow> JUndefined
      | Some d \<Rightarrow>
          (case d_raw d of
             None \<Rightarrow> JUndefined
           | Some r \<Rightarrow>
               (case r_contact r of None \<Rightarrow> JUndefined | Some c \<Rightarrow> c_email c)))"
  "email_raw_flat company =
     (case p_datasource (properties company) of
        None \<Rightarrow> JUndefined
      | Some d \<Rightarrow> (case d_raw d of None \<Rightarrow> JUndefined | Some r \<Rightarrow> r_contact_email r))"
  by (simp_all add: email_contact_def email_raw_contact_def email_raw_flat_def opt_field_def
      datasource_raw_contact_def datasource_raw_def split: option.splits)

lemma website_locations:
  "website_contact company =
     (case p_contact (properties company) of None \<Rightarrow> JUndefined | Some c \<Rightarrow> c_website c)"
  "website_raw_contact company =
     (case p_datasource (properties company) of
        None \<Rightarrow> JUndefined
      | Some d \<Rightarrow>
          (case d_raw d of
             None \<Rightarrow> JUndefined
           | Some r \<Rightarrow>
               (case r_contact r of None \<Rightarrow> JUndefined | Some c \<Rightarrow> c_website c)))"
  "website_raw_flat company =
     (case p_datasource (properties company) of
        None \<Rightarrow> JUndefined
      | Some d \<Rightarrow> (case d_raw d of None \<Rightarrow> JUndefined | Some r \<Rightarrow> r_contact_website r))"
  "website_raw_plain company =
     (case p_datasource (properties company) of
        None \<Rightarrow> JUndefined
      | Some d \<Rightarrow> (case d_raw d of None \<Rightarrow> JUndefined | Some r \<Rightarrow> r_website r))"
  by (simp_all add: website_contact_def website_raw_contact_def website_raw_flat_def
      website_raw_plain_def opt_field_def datasource_raw_contact_def datasource_raw_def
      split: option.splits)

lemma truthy_not_nullish: "truthy v \<Longrightarrow> v \<noteq> JNull \<and> v \<noteq> JUndefined"
  by auto

section \<open>Joining the concurrent scrapes\<close>

lemma promise_all_Inr: "promise_all ps = Inr vs \<Longrightarrow> ps = map Inr vs"
proof (induction ps arbitrary: vs rule: promise_all.induct)
  case 1
  then show ?case by simp
next
  case (2 e ps)
  then show ?case by simp
next
  case (3 v ps)
  then show ?case by (auto split: sum.splits)
qed

lemma processCompanies_Inr:
  assumes "processCompanies env companies = Inr recs"
  shows "length recs = length (filterCompaniesWithEmails companies)"
    and "\<forall>i < length recs.
           processCompany env i (filterCompaniesWithEmails companies ! i) = Inr (recs ! i)"
proof -
  let ?kept = "filterCompaniesWithEmails companies"
  let ?ps = "map (\<lambda>(i, c). processCompany env i c) (enumerate 0 ?kept)"
  have m: "?ps = map Inr recs"
    using assms promise_all_Inr by (simp add: processCompanies_def)
  then have "length ?ps = length (map Inr recs :: (jserror + company) list)"
    by simp
  then show len: "length recs = length ?kept" by simp
  show "\<forall>i < length recs. processCompany env i (?kept ! i) = Inr (recs ! i)"
  proof (intro allI impI)
    fix i assume i: "i < length recs"
    then have "?ps ! i = (map Inr recs :: (jserror + company) list) ! i"
      using m by simp
    then show "processCompany env i (?kept ! i) = Inr (recs ! i)"
      using i len by (simp add: nth_enumerate_eq)
  qed
qed

lemma processCompany_fields:
  "processCompany env i c = Inr r \<Longrightarrow>
     cr_email r = extractEmail c \<and> cr_website r = extractWebsite c \<and>
     cr_name r = p_name (properties c) \<and> cr_address r = p_formatted (properties c) \<and>
     cr_lat r = p_lat (properties c) \<and> cr_lon r = p_lon (properties c)"
  by (auto simp: processCompany_def Let_def split: sum.splits if_splits)

lemma POST_companies:
  assumes "body (POST env rj) = CompaniesBody recs"
  shows "\<exists>b latitude longitude radius radiusKm companies.
     rj = Inr b \<and> destructure b ''latitude'' = Inr latitude \<and>
     destructure b ''longitude'' = Inr longitude \<and> destructure b ''radius'' = Inr radius \<and>
     truthy latitude \<and> truthy longitude \<and>
     radiusKm_of env radius = Inr radiusKm \<and>
     fst (fetchNearbyCompanies env latitude longitude radiusKm) = Inr (Some companies) \<and>
     processCompanies env companies = Inr recs \<and> status (POST env rj) = 200"
  using assms
  by (auto simp: POST_def POST_try_def split: sum.splits if_splits option.splits)

section \<open>The retry loop, unfolded\<close>

lemma scrapeLoop_3:
  "scrapeLoop get u (Suc (Suc (Suc 0))) le =
     (case get u 3 of
        Inr d \<Rightarrow> (Inl (extractContent d), [AxiosGet u SCRAPE_TIMEOUT_MS])
      | Inl e \<Rightarrow> (Inr (Some e), [AxiosGet u SCRAPE_TIMEOUT_MS]))"
  by (subst scrapeLoop.simps) (simp add: maxAttempts_def numeral_3_eq_3 split: sum.splits)

lemma scrapeLoop_2:
  "scrapeLoop get u (Suc (Suc 0)) le =
     (case get u 2 of
        Inr d \<Rightarrow> (Inl (extractContent d), [AxiosGet u SCRAPE_TIMEOUT_MS])
      | Inl e \<Rightarrow>
          if isRetryable e then
            (case scrapeLoop get u (Suc (Suc (Suc 0))) (Some e) of
               (r, evs) \<Rightarrow> (r, AxiosGet u SCRAPE_TIMEOUT_MS # Wait 1000 # evs))
          else (Inr (Some e), [AxiosGet u SCRAPE_TIMEOUT_MS]))"
  by (subst scrapeLoop.simps) (simp add: maxAttempts_def numeral_2_eq_2 split: sum.splits)

lemma scrapeLoop_1:
  "scrapeLoop get u (Suc 0) le =
     (case get u 1 of
        Inr d \<Rightarrow> (Inl (extractContent d), [AxiosGet u SCRAPE_TIMEOUT_MS])
      | Inl e \<Rightarrow>
          if isRetryable e then
            (case scrapeLoop get u (Suc (Suc 0)) (Some e) of
               (r, evs) \<Rightarrow> (r, AxiosGet u SCRAPE_TIMEOUT_MS # Wait 1000 # evs))
          else (Inr (Some e), [AxiosGet u SCRAPE_TIMEOUT_MS]))"
  by (subst scrapeLoop.simps) (simp add: maxAttempts_def split: sum.splits)

lemmas scrapeLoop_unfold = scrapeLoop_1 scrapeLoop_2 scrapeLoop_3

text \<open>At most three requests, whatever the site answers.\<close>

lemma scrape_at_most_three:
  "length (requested (snd (scrapeWebsite get url))) \<le> 3"
  by (auto simp: scrapeWebsite_def scrapeLoop_unfold
      split: sum.splits prod.splits option.splits if_splits)

text \<open>After a failed first attempt there is a second one exactly when the guard holds.\<close>

lemma scrape_retry_iff:
  assumes "url \<noteq> []" and "get (formatUrl url) 1 = Inl e"
  shows "length (requested (snd (scrapeWebsite get url))) > 1 \<longleftrightarrow> isRetryable e"
  using assms
  by (auto simp: scrapeWebsite_def scrapeLoop_unfold
      split: sum.splits prod.splits option.splits if_splits)

text \<open>Three attempts that fail with the guard holding at the first two: three requests, two
  waits of 1000 ms, and the failure string of the last error.\<close>

lemma scrape_always_retryable:
  assumes "url \<noteq> []"
    and "get (formatUrl url) 1 = Inl e1" "isRetryable e1"
    and "get (formatUrl url) 2 = Inl e2" "isRetryable e2"
    and "get (formatUrl url) 3 = Inl e3"
  shows "scrapeWebsite get url =
     (Inr (Some (''Failed to scrape: '' @ message_text e3)),
      [AxiosGet (formatUrl url) SCRAPE_TIMEOUT_MS, Wait 1000,
       AxiosGet (formatUrl url) SCRAPE_TIMEOUT_MS, Wait 1000,
       AxiosGet (formatUrl url) SCRAPE_TIMEOUT_MS])"
  using assms by (simp add: scrapeWebsite_def scrapeLoop_unfold)

text \<open>A first failure outside the guard: one request, no wait.\<close>

lemma scrape_not_retryable:
  assumes "url \<noteq> []" and "get (formatUrl url) 1 = Inl e" and "\<not> isRetryable e"
  shows "scrapeWebsite get url =
     (Inr (Some (''Failed to scrape: '' @ message_text e)),
      [AxiosGet (formatUrl url) SCRAPE_TIMEOUT_MS])"
  using assms by (simp add: scrapeWebsite_def scrapeLoop_unfold)

lemma scrape_never_throws: "\<exists>r. fst (scrapeWebsite get url) = Inr r"
  by (auto simp: scrapeWebsite_def scrapeLoop_unfold
      split: sum.splits prod.splits option.splits if_splits)

lemma scrape_timeout_three_calls:
  "scrapeWebsite (\<lambda>u n. Inl err_timeout) ''example.com'' =
     (Inr (Some ''Failed to scrape: timeout of 15000ms exceeded''),
      [AxiosGet ''https://example.com'' 15000, Wait 1000,
       AxiosGet ''https://example.com'' 15000, Wait 1000,
       AxiosGet ''https://example.com'' 15000])"
  by code_simp

lemma scrape_404_one_call:
  "scrapeWebsite (\<lambda>u n. Inl err_404) ''example.com'' =
     (Inr (Some ''Failed to scrape: Request failed with status code 404''),
      [AxiosGet ''https://example.com'' 15000])"
  by code_simp

section \<open>Content extraction\<close>

lemma longer_than_find_Some:
  "find (\<lambda>t. length (trim t) > n) ts = Some t \<Longrightarrow> \<exists>rest. longer_than n ts = t # rest"
  by (induction ts) (auto simp: longer_than_def split: if_splits)

lemma longer_than_find_None:
  "find (\<lambda>t. length (trim t) > n) ts = None \<Longrightarrow> longer_than n ts = []"
  by (induction ts) (auto simp: longer_than_def split: if_splits)

lemma find_Some_longer:
  "find (\<lambda>t. length (trim t) > n) ts = Some t \<Longrightarrow> length (trim t) > n"
  by (induction ts) (auto split: if_splits)

lemma first_trimmed_longer:
  assumes "longer_than n ts \<noteq> []"
  shows "length (first_trimmed (longer_than n ts)) > n"
proof -
  obtain t rest where e: "longer_than n ts = t # rest"
    using assms by (cases "longer_than n ts") auto
  then have "t \<in> set (longer_than n ts)" by simp
  then have "length (trim t) > n" by (simp add: longer_than_def)
  with e show ?thesis by (simp add: first_trimmed_def)
qed

text \<open>The result is empty in one case only: no paragraph qualifies and the description has
  more than 20 characters, all of them white space.\<close>

lemma extractContent_empty_iff:
  "extractContent d = [] \<longleftrightarrow>
     longer_than 30 (doc_p d) = [] \<and>
     (\<exists>m. doc_meta d = Some m \<and> length m > 20 \<and> trim m = [])"
proof -
  have a: "\<And>n ts. longer_than n ts \<noteq> [] \<Longrightarrow> first_trimmed (longer_than n ts) \<noteq> []"
    using first_trimmed_longer by fastforce
  have b: "\<And>ts. longer_than 40 ts \<noteq> [] \<Longrightarrow> take 300 (first_trimmed (longer_than 40 ts)) \<noteq> []"
    using first_trimmed_longer by fastforce
  show ?thesis
    using a[of 30 "doc_p d"] a[of 10 "doc_h d"] b[of "doc_content_divs d"]
    by (auto simp: extractContent_def Let_def substring0_def split: option.splits)
qed

section \<open>The decoder\<close>

lemma getScrapeStatus_success_iff:
  "success (getScrapeStatus content) \<longleftrightarrow>
     (\<exists>c. content = Some c \<and> \<not> includes_str c ''ERROR:'' \<and> trim c \<noteq> [])"
  by (auto simp: getScrapeStatus_def split: option.splits)

text \<open>A content that carries the text \<open>ERROR: NOT_ATTEMPTED\<close> is given the code of a
  scrape that was not attempted.\<close>

lemma getScrapeStatus_not_attempted_text:
  "getScrapeStatus (Some ''ERROR: NOT_ATTEMPTED'') =
     \<lparr>success = False, errorCode = Some ''NOT_ATTEMPTED''\<rparr>"
  by code_simp

section \<open>The request check\<close>

lemma POST_400_iff:
  "status (POST env rj) = 400 \<longleftrightarrow>
     (\<exists>b latitude longitude radius.
        rj = Inr b \<and> destructure b ''latitude'' = Inr latitude \<and>
        destructure b ''longitude'' = Inr longitude \<and> destructure b ''radius'' = Inr radius \<and>
        (\<not> truthy latitude \<or> \<not> truthy longitude))"
  by (auto simp: POST_def POST_try_def split: sum.splits if_splits option.splits)

section \<open>The statements of the specification\<close>

text \<open>
  C1. The scraper is to retry a timeout or a network-level connection error, up to three
  attempts. A connection reset by the remote host is a network-level connection error; the
  guard of the loop looks for the code \<open>ECONNABORTED\<close> or the word \<open>timeout\<close> in small
  letters only, so the endpoint is requested once and the failure string is returned without
  a retry. The same happens for a connection attempt timed out by the operating system,
  whose code is \<open>ETIMEDOUT\<close>.
\<close>

theorem scrapeWebsite_connection_reset_single_attempt:
  "\<not> isRetryable err_reset \<and>
   scrapeWebsite (\<lambda>u n. Inl err_reset) ''example.com'' =
     (Inr (Some ''Failed to scrape: read ECONNRESET''),
      [AxiosGet ''https://example.com'' 15000]) \<and>
   \<not> isRetryable err_connect_timeout \<and>
   scrapeWebsite (\<lambda>u n. Inl err_connect_timeout) ''example.com'' =
     (Inr (Some ''Failed to scrape: connect ETIMEDOUT 203.0.113.7:443''),
      [AxiosGet ''https://example.com'' 15000])"
  by code_simp

text \<open>
  C2. Let \<open>e1\<close> be \<open>properties.contact.email\<close>, \<open>e2\<close> be
  \<open>properties.datasource.raw.contact.email\<close> and \<open>e3\<close> be
  \<open>properties.datasource.raw['contact:email']\<close>, each \<open>undefined\<close> when a block on its
  path is absent. The filter keeps a place exactly when one of the three is truthy; for a
  place it keeps, \<open>extractEmail\<close> gives the first truthy one in the order \<open>e1\<close>, \<open>e2\<close>,
  \<open>e3\<close>, and that value is neither \<open>null\<close> nor \<open>undefined\<close>; so the email of every
  record in a response of the handler is not \<open>null\<close>.
\<close>

theorem email_filter_mapper_agree:
  "(let e1 = (case p_contact (properties company) of
                None \<Rightarrow> JUndefined
              | Some c \<Rightarrow> c_email c);
        e2 = (case p_datasource (properties company) of
                None \<Rightarrow> JUndefined
              | Some d \<Rightarrow>
                  (case d_raw d of
                     None \<Rightarrow> JUndefined
                   | Some r \<Rightarrow>
                       (case r_contact r of None \<Rightarrow> JUndefined | Some c \<Rightarrow> c_email c)));
        e3 = (case p_datasource (properties company) of
                None \<Rightarrow> JUndefined
              | Some d \<Rightarrow>
                  (case d_raw d of None \<Rightarrow> JUndefined | Some r \<Rightarrow> r_contact_email r))
    in (company \<in> set (filterCompaniesWithEmails companies) \<longleftrightarrow>
          company \<in> set companies \<and> (truthy e1 \<or> truthy e2 \<or> truthy e3)) \<and>
       (company \<in> set (filterCompaniesWithEmails companies) \<longrightarrow>
          extractEmail company =
            (if truthy e1 then e1 else if truthy e2 then e2 else e3) \<and>
          truthy (extractEmail company) \<and>
          extractEmail company \<noteq> JNull \<and> extractEmail company \<noteq> JUndefined)) \<and>
   (body (POST env request_json) = CompaniesBody recs \<longrightarrow>
      (\<forall>r \<in> set recs. truthy (cr_email r) \<and> cr_email r \<noteq> JNull \<and> cr_email r \<noteq> JUndefined))"
proof (rule conjI)
  have k: "company \<in> set (filterCompaniesWithEmails companies) \<longleftrightarrow>
      company \<in> set companies \<and>
      (truthy (email_contact company) \<or> truthy (email_raw_contact company) \<or>
       truthy (email_raw_flat company))"
    by (auto simp: filterCompaniesWithEmails_def hasEmail_truthy)
  have v: "company \<in> set (filterCompaniesWithEmails companies) \<longrightarrow>
      extractEmail company =
        (if truthy (email_contact company) then email_contact company
         else if truthy (email_raw_contact company) then email_raw_contact company
         else email_raw_flat company) \<and>
      truthy (extractEmail company) \<and>
      extractEmail company \<noteq> JNull \<and> extractEmail company \<noteq> JUndefined"
  proof
    assume "company \<in> set (filterCompaniesWithEmails companies)"
    then have h: "truthy (hasEmail company)"
      by (simp add: filterCompaniesWithEmails_def)
    then have t: "truthy (extractEmail company)"
      by (simp add: extractEmail_hasEmail)
    from h have "extractEmail company =
        (if truthy (email_contact company) then email_contact company
         else if truthy (email_raw_contact company) then email_raw_contact company
         else email_raw_flat company)"
      by (auto simp: extractEmail_first_truthy hasEmail_truthy)
    with t show "extractEmail company =
        (if truthy (email_contact company) then email_contact company
         else if truthy (email_raw_contact company) then email_raw_contact company
         else email_raw_flat company) \<and>
      truthy (extractEmail company) \<and>
      extractEmail company \<noteq> JNull \<and> extractEmail company \<noteq> JUndefined"
      by auto
  qed
  from k v show "let e1 = (case p_contact (properties company) of
                None \<Rightarrow> JUndefined
              | Some c \<Rightarrow> c_email c);
        e2 = (case p_datasource (properties company) of
                None \<Rightarrow> JUndefined
              | Some d \<Rightarrow>
                  (case d_raw d of
                     None \<Rightarrow> JUndefined
                   | Some r \<Rightarrow>
                       (case r_contact r of None \<Rightarrow> JUndefined | Some c \<Rightarrow> c_email c)));
        e3 = (case p_datasource (properties company) of
                None \<Rightarrow> JUndefined
              | Some d \<Rightarrow>
                  (case d_raw d of None \<Rightarrow> JUndefined | Some r \<Rightarrow> r_contact_email r))
    in (company \<in> set (filterCompaniesWithEmails companies) \<longleftrightarrow>
          company \<in> set companies \<and> (truthy e1 \<or> truthy e2 \<or> truthy e3)) \<and>
       (company \<in> set (filterCompaniesWithEmails companies) \<longrightarrow>
          extractEmail company =
            (if truthy e1 then e1 else if truthy e2 then e2 else e3) \<and>
          truthy (extractEmail company) \<and>
          extractEmail company \<noteq> JNull \<and> extractEmail company \<noteq> JUndefined)"
    unfolding Let_def email_locations by (rule conjI)
next
  show "body (POST env request_json) = CompaniesBody recs \<longrightarrow>
      (\<forall>r \<in> set recs. truthy (cr_email r) \<and> cr_email r \<noteq> JNull \<and> cr_email r \<noteq> JUndefined)"
  proof
    assume "body (POST env request_json) = CompaniesBody recs"
    then obtain companies' where p: "processCompanies env companies' = Inr recs"
      using POST_companies by blast
    let ?kept = "filterCompaniesWithEmails companies'"
    show "\<forall>r \<in> set recs. truthy (cr_email r) \<and> cr_email r \<noteq> JNull \<and> cr_email r \<noteq> JUndefined"
    proof
      fix r assume "r \<in> set recs"
      then obtain i where i: "i < length recs" and r: "r = recs ! i"
        by (auto simp: in_set_conv_nth)
      from p i have pc: "processCompany env i (?kept ! i) = Inr (recs ! i)"
        using processCompanies_Inr(2) by blast
      from p i have "?kept ! i \<in> set ?kept"
        using processCompanies_Inr(1) by (metis nth_mem)
      then have "truthy (hasEmail (?kept ! i))"
        by (simp add: filterCompaniesWithEmails_def)
      then have "truthy (extractEmail (?kept ! i))"
        by (simp add: extractEmail_hasEmail)
      moreover have "cr_email r = extractEmail (?kept ! i)"
        using pc r processCompany_fields by blast
      ultimately show "truthy (cr_email r) \<and> cr_email r \<noteq> JNull \<and> cr_email r \<noteq> JUndefined"
        by auto
    qed
  qed
qed

text \<open>At the example places: an email at the first location (with another at the third), at
  the second only, at the second and third, and at the third only are each kept and
  resolved by priority; an empty or \<open>null\<close> email is dropped.\<close>

theorem email_filter_mapper_agree_witness:
  "ex_place_a \<in> set (filterCompaniesWithEmails ex_places) \<and>
   extractEmail ex_place_a = JStr ''info@alpha.example'' \<and>
   ex_place_d \<in> set (filterCompaniesWithEmails ex_places) \<and>
   extractEmail ex_place_d = JStr ''office@delta.example'' \<and>
   ex_place_e \<in> set (filterCompaniesWithEmails ex_places) \<and>
   extractEmail ex_place_e = JStr ''hello@epsilon.example'' \<and>
   ex_place_c \<in> set (filterCompaniesWithEmails ex_places) \<and>
   extractEmail ex_place_c = JStr ''mail@gamma.example'' \<and>
   ex_place_b \<notin> set (filterCompaniesWithEmails ex_places) \<and>
   ex_place_f \<notin> set (filterCompaniesWithEmails ex_places) \<and>
   body (POST ex_env ex_request) = CompaniesBody ex_records \<and>
   list_all (\<lambda>r. truthy (cr_email r) \<and> cr_email r \<noteq> JNull \<and> cr_email r \<noteq> JUndefined)
     ex_records"
proof -
  note t = email_filter_mapper_agree [where companies = ex_places, unfolded Let_def]
  note ta = t [where company = ex_place_a, THEN conjunct1]
  note tb = t [where company = ex_place_b, THEN conjunct1]
  note tc = t [where company = ex_place_c, THEN conjunct1]
  note td = t [where company = ex_place_d, THEN conjunct1]
  note te = t [where company = ex_place_e, THEN conjunct1]
  note tf = t [where company = ex_place_f, THEN conjunct1]
  have ma: "ex_place_a \<in> set (filterCompaniesWithEmails ex_places)"
    using ta by (simp add: ex_places_def ex_place_a_def)
  have va: "extractEmail ex_place_a = JStr ''info@alpha.example''"
    using ta ma by (simp add: ex_place_a_def)
  have md: "ex_place_d \<in> set (filterCompaniesWithEmails ex_places)"
    using td by (simp add: ex_places_def ex_place_d_def)
  have vd: "extractEmail ex_place_d = JStr ''office@delta.example''"
    using td md by (simp add: ex_place_d_def)
  have me: "ex_place_e \<in> set (filterCompaniesWithEmails ex_places)"
    using te by (simp add: ex_places_def ex_place_e_def)
  have ve: "extractEmail ex_place_e = JStr ''hello@epsilon.example''"
    using te me by (simp add: ex_place_e_def)
  have mc: "ex_place_c \<in> set (filterCompaniesWithEmails ex_places)"
    using tc by (simp add: ex_places_def ex_place_c_def)
  have vc: "extractEmail ex_place_c = JStr ''mail@gamma.example''"
    using tc mc by (simp add: ex_place_c_def)
  have nb: "ex_place_b \<notin> set (filterCompaniesWithEmails ex_places)"
    using tb by (simp add: ex_place_b_def)
  have nf: "ex_place_f \<notin> set (filterCompaniesWithEmails ex_places)"
    using tf by (simp add: ex_place_f_def)
  have h2: "body (POST ex_env ex_request) = CompaniesBody ex_records"
    by code_simp
  from email_filter_mapper_agree
    [where env = ex_env and request_json = ex_request and recs = ex_records, THEN conjunct2] h2
  have "\<forall>r \<in> set ex_records.
      truthy (cr_email r) \<and> cr_email r \<noteq> JNull \<and> cr_email r \<noteq> JUndefined"
    by blast
  then have c2: "list_all
      (\<lambda>r. truthy (cr_email r) \<and> cr_email r \<noteq> JNull \<and> cr_email r \<noteq> JUndefined) ex_records"
    by (simp only: list_all_iff)
  show ?thesis
    by (intro conjI ma va md vd me ve mc vc nb nf h2 c2)
qed

text \<open>
  C3. The five strategies in their order, with the thresholds 30, 20, 10 and 40 and the cap
  of 300 characters: the first paragraph with more than 30 characters of trimmed text wins
  whatever the description is; without one, a description of more than 20 characters wins
  over the headings; without either, the first heading with more than 10 characters of
  trimmed text wins over the content blocks; then the first content block with more than 40
  characters gives the first 300 characters of its trimmed text; then the first block of any
  kind with more than 40 characters gives its trimmed text.
\<close>

theorem extractContent_strategy_order:
  "(find (\<lambda>t. length (trim t) > 30) (doc_p d) = Some p \<longrightarrow> extractContent d = trim p) \<and>
   (find (\<lambda>t. length (trim t) > 30) (doc_p d) = None \<and> doc_meta d = Some m \<and> length m > 20
      \<longrightarrow> extractContent d = trim m) \<and>
   (find (\<lambda>t. length (trim t) > 30) (doc_p d) = None \<and>
    (\<forall>m'. doc_meta d = Some m' \<longrightarrow> length m' \<le> 20) \<and>
    find (\<lambda>t. length (trim t) > 10) (doc_h d) = Some h
      \<longrightarrow> extractContent d = trim h) \<and>
   (find (\<lambda>t. length (trim t) > 30) (doc_p d) = None \<and>
    (\<forall>m'. doc_meta d = Some m' \<longrightarrow> length m' \<le> 20) \<and>
    find (\<lambda>t. length (trim t) > 10) (doc_h d) = None \<and>
    find (\<lambda>t. length (trim t) > 40) (doc_content_divs d) = Some c
      \<longrightarrow> extractContent d = take 300 (trim c)) \<and>
   (find (\<lambda>t. length (trim t) > 30) (doc_p d) = None \<and>
    (\<forall>m'. doc_meta d = Some m' \<longrightarrow> length m' \<le> 20) \<and>
    find (\<lambda>t. length (trim t) > 10) (doc_h d) = None \<and>
    find (\<lambda>t. length (trim t) > 40) (doc_content_divs d) = None \<and>
    find (\<lambda>t. length (trim t) > 40) (doc_divs d) = Some v
      \<longrightarrow> extractContent d = trim v)"
proof (intro conjI impI)
  assume "find (\<lambda>t. length (trim t) > 30) (doc_p d) = Some p"
  then obtain rest where "longer_than 30 (doc_p d) = p # rest"
    using longer_than_find_Some by blast
  then show "extractContent d = trim p"
    by (simp add: extractContent_def first_trimmed_def)
next
  assume a: "find (\<lambda>t. length (trim t) > 30) (doc_p d) = None \<and> doc_meta d = Some m \<and>
    length m > 20"
  then have "longer_than 30 (doc_p d) = []" using longer_than_find_None by blast
  with a show "extractContent d = trim m"
    by (auto simp: extractContent_def)
next
  assume a: "find (\<lambda>t. length (trim t) > 30) (doc_p d) = None \<and>
    (\<forall>m'. doc_meta d = Some m' \<longrightarrow> length m' \<le> 20) \<and>
    find (\<lambda>t. length (trim t) > 10) (doc_h d) = Some h"
  then have 1: "longer_than 30 (doc_p d) = []" using longer_than_find_None by blast
  from a obtain rest where 2: "longer_than 10 (doc_h d) = h # rest"
    using longer_than_find_Some by blast
  from a have 3: "\<not> (case doc_meta d of None \<Rightarrow> False | Some m \<Rightarrow> m \<noteq> [] \<and> length m > 20)"
    by (auto split: option.splits)
  show "extractContent d = trim h"
    using 1 2 3 by (simp add: extractContent_def first_trimmed_def)
next
  assume a: "find (\<lambda>t. length (trim t) > 30) (doc_p d) = None \<and>
    (\<forall>m'. doc_meta d = Some m' \<longrightarrow> length m' \<le> 20) \<and>
    find (\<lambda>t. length (trim t) > 10) (doc_h d) = None \<and>
    find (\<lambda>t. length (trim t) > 40) (doc_content_divs d) = Some c"
  then have 1: "longer_than 30 (doc_p d) = []" and 2: "longer_than 10 (doc_h d) = []"
    using longer_than_find_None by blast+
  from a obtain rest where 4: "longer_than 40 (doc_content_divs d) = c # rest"
    using longer_than_find_Some by blast
  from a have 3: "\<not> (case doc_meta d of None \<Rightarrow> False | Some m \<Rightarrow> m \<noteq> [] \<and> length m > 20)"
    by (auto split: option.splits)
  show "extractContent d = take 300 (trim c)"
    using 1 2 3 4 by (simp add: extractContent_def first_trimmed_def substring0_def)
next
  assume a: "find (\<lambda>t. length (trim t) > 30) (doc_p d) = None \<and>
    (\<forall>m'. doc_meta d = Some m' \<longrightarrow> length m' \<le> 20) \<and>
    find (\<lambda>t. length (trim t) > 10) (doc_h d) = None \<and>
    find (\<lambda>t. length (trim t) > 40) (doc_content_divs d) = None \<and>
    find (\<lambda>t. length (trim t) > 40) (doc_divs d) = Some v"
  then have 1: "longer_than 30 (doc_p d) = []" and 2: "longer_than 10 (doc_h d) = []"
    and 4: "longer_than 40 (doc_content_divs d) = []"
    using longer_than_find_None by blast+
  from a obtain rest where 5: "longer_than 40 (doc_divs d) = v # rest"
    using longer_than_find_Some by blast
  from a have "length (trim v) > 40" using find_Some_longer by blast
  then have 7: "trim v \<noteq> []" by auto
  from a have 3: "\<not> (case doc_meta d of None \<Rightarrow> False | Some m \<Rightarrow> m \<noteq> [] \<and> length m > 20)"
    by (auto split: option.splits)
  show "extractContent d = trim v"
    using 1 2 3 4 5 7 by (simp add: extractContent_def first_trimmed_def)
qed

theorem extractContent_strategy_order_witness:
  "extractContent ex_page = ''We repair bicycles in Berlin since 1990.'' \<and>
   extractContent ex_page_meta = ''Bicycle repair in Berlin'' \<and>
   extractContent ex_page_heading = ''Alpha Bikes Berlin'' \<and>
   extractContent ex_page_content_div = replicate 300 (CHR ''a'') \<and>
   extractContent ex_page_any_div = ''Opening hours: Monday to Friday from 9 to 18''"
proof -
  have p_none: "find (\<lambda>t. length (trim t) > 30) (doc_p ex_page_meta) = None"
    "find (\<lambda>t. length (trim t) > 30) (doc_p ex_page_heading) = None"
    "find (\<lambda>t. length (trim t) > 30) (doc_p ex_page_content_div) = None"
    "find (\<lambda>t. length (trim t) > 30) (doc_p ex_page_any_div) = None"
    by code_simp+
  have m_short: "\<forall>m'. doc_meta ex_page_heading = Some m' \<longrightarrow> length m' \<le> 20"
    "\<forall>m'. doc_meta ex_page_content_div = Some m' \<longrightarrow> length m' \<le> 20"
    "\<forall>m'. doc_meta ex_page_any_div = Some m' \<longrightarrow> length m' \<le> 20"
    by (simp_all add: ex_page_heading_def ex_page_content_div_def ex_page_any_div_def)
  have h_none: "find (\<lambda>t. length (trim t) > 10) (doc_h ex_page_content_div) = None"
    "find (\<lambda>t. length (trim t) > 10) (doc_h ex_page_any_div) = None"
    by code_simp+
  have c_none: "find (\<lambda>t. length (trim t) > 40) (doc_content_divs ex_page_any_div) = None"
    by code_simp

  have h1: "find (\<lambda>t. length (trim t) > 30) (doc_p ex_page)
      = Some ''  We repair bicycles in Berlin since 1990. ''"
    by code_simp
  have v1: "trim ''  We repair bicycles in Berlin since 1990. ''
      = ''We repair bicycles in Berlin since 1990.''"
    by code_simp
  have c1: "extractContent ex_page = ''We repair bicycles in Berlin since 1990.''"
    using extractContent_strategy_order
      [where d = ex_page and p = "''  We repair bicycles in Berlin since 1990. ''"] h1
    unfolding v1 by blast

  have h2: "doc_meta ex_page_meta = Some ''Bicycle repair in Berlin '' \<and>
      length ''Bicycle repair in Berlin '' > 20"
    by code_simp
  have v2: "trim ''Bicycle repair in Berlin '' = ''Bicycle repair in Berlin''"
    by code_simp
  have c2: "extractContent ex_page_meta = ''Bicycle repair in Berlin''"
    using extractContent_strategy_order
      [where d = ex_page_meta and m = "''Bicycle repair in Berlin ''"] p_none(1) h2
    unfolding v2 by blast

  have h3: "find (\<lambda>t. length (trim t) > 10) (doc_h ex_page_heading)
      = Some '' Alpha Bikes Berlin ''"
    by code_simp
  have v3: "trim '' Alpha Bikes Berlin '' = ''Alpha Bikes Berlin''"
    by code_simp
  have c3: "extractContent ex_page_heading = ''Alpha Bikes Berlin''"
    using extractContent_strategy_order
      [where d = ex_page_heading and h = "'' Alpha Bikes Berlin ''"] p_none(2) m_short(1) h3
    unfolding v3 by blast

  have h4: "find (\<lambda>t. length (trim t) > 40) (doc_content_divs ex_page_content_div)
      = Some (''  '' @ replicate 320 (CHR ''a'') @ '' '')"
    by code_simp
  have v4: "take 300 (trim (''  '' @ replicate 320 (CHR ''a'') @ '' ''))
      = replicate 300 (CHR ''a'')"
    by code_simp
  have c4: "extractContent ex_page_content_div = replicate 300 (CHR ''a'')"
    using extractContent_strategy_order
      [where d = ex_page_content_div and c = "''  '' @ replicate 320 (CHR ''a'') @ '' ''"]
      p_none(3) m_short(2) h_none(1) h4
    unfolding v4 by blast

  have h5: "find (\<lambda>t. length (trim t) > 40) (doc_divs ex_page_any_div)
      = Some '' Opening hours: Monday to Friday from 9 to 18 ''"
    by code_simp
  have v5: "trim '' Opening hours: Monday to Friday from 9 to 18 ''
      = ''Opening hours: Monday to Friday from 9 to 18''"
    by code_simp
  have c5: "extractContent ex_page_any_div = ''Opening hours: Monday to Friday from 9 to 18''"
    using extractContent_strategy_order
      [where d = ex_page_any_div and v = "'' Opening hours: Monday to Friday from 9 to 18 ''"]
      p_none(4) m_short(3) h_none(2) c_none h5
    unfolding v5 by blast

  show ?thesis
    by (intro conjI c1 c2 c3 c4 c5)
qed

text \<open>
  C4. A request is to be rejected with status 400 only when latitude or longitude is missing.
  The check is on truthiness: a point on the equator, with latitude 0 present in the body,
  is rejected with the message that latitude and longitude are required.
\<close>

theorem POST_zero_latitude_is_400:
  "POST env (Inr (JObj [(''latitude'', JNum (Fin 0)),
                        (''longitude'', JNum (Fin (13405 / 1000)))])) =
     \<lparr>status = 400, body = ErrorBody ''Latitude and longitude are required''\<rparr>"
  by (simp add: POST_def POST_try_def destructure_def)

text \<open>
  C5. Every failure string of the scraper is to be decoded as a failure. The scraper marks a
  failure with \<open>Failed to scrape: \<close>, the decoder looks for \<open>ERROR:\<close>: the string the
  scraper returns for an endpoint that always times out is decoded as a success.
\<close>

theorem getScrapeStatus_failure_marker_is_success:
  "fst (scrapeWebsite (\<lambda>u n. Inl err_timeout) ''example.com'') =
     Inr (Some ''Failed to scrape: timeout of 15000ms exceeded'') \<and>
   startsWith ''Failed to scrape: timeout of 15000ms exceeded'' ''Failed to scrape: '' \<and>
   getScrapeStatus (Some ''Failed to scrape: timeout of 15000ms exceeded'') =
     \<lparr>success = True, errorCode = None\<rparr>"
  by code_simp

text \<open>
  C6. The extraction is to return a non-empty string for every page. The description is
  measured before it is trimmed and returned after: for a page without a long paragraph
  whose description is 25 blanks, the result is the empty string.
\<close>

theorem extractContent_blank_meta_is_empty:
  "extractContent ex_page_blank_meta = []"
  by code_simp

text \<open>
  C7. Let \<open>w1\<close> be \<open>properties.contact.website\<close>, \<open>w2\<close> be
  \<open>properties.datasource.raw.contact.website\<close>, \<open>w3\<close> be
  \<open>properties.datasource.raw['contact:website']\<close> and \<open>w4\<close> be
  \<open>properties.datasource.raw.website\<close>, each \<open>undefined\<close> when a block on its path is
  absent. The website is the first truthy one in the order \<open>w1\<close>, \<open>w2\<close>, \<open>w3\<close>, \<open>w4\<close>,
  whatever the later ones hold, and \<open>null\<close> when none is truthy.
\<close>

theorem extractWebsite_priority:
  "extractWebsite company =
     (let w1 = (case p_contact (properties company) of
                  None \<Rightarrow> JUndefined
                | Some c \<Rightarrow> c_website c);
          w2 = (case p_datasource (properties company) of
                  None \<Rightarrow> JUndefined
                | Some d \<Rightarrow>
                    (case d_raw d of
                       None \<Rightarrow> JUndefined
                     | Some r \<Rightarrow>
                         (case r_contact r of None \<Rightarrow> JUndefined | Some c \<Rightarrow> c_website c)));
          w3 = (case p_datasource (properties company) of
                  None \<Rightarrow> JUndefined
                | Some d \<Rightarrow>
                    (case d_raw d of None \<Rightarrow> JUndefined | Some r \<Rightarrow> r_contact_website r));
          w4 = (case p_datasource (properties company) of
                  None \<Rightarrow> JUndefined
                | Some d \<Rightarrow> (case d_raw d of None \<Rightarrow> JUndefined | Some r \<Rightarrow> r_website r))
      in if truthy w1 then w1
         else if truthy w2 then w2
         else if truthy w3 then w3
         else if truthy w4 then w4
         else JNull)"
proof -
  have "extractWebsite company =
     (if truthy (website_contact company) then website_contact company
      else if truthy (website_raw_contact company) then website_raw_contact company
      else if truthy (website_raw_flat company) then website_raw_flat company
      else if truthy (website_raw_plain company) then website_raw_plain company
      else JNull)"
    by (simp add: extractWebsite_def js_or_def)
  then show ?thesis
    unfolding Let_def website_locations .
qed

text \<open>At the example places: websites at all four locations give the first; at the last
  three, the second; at the last two, the third; at the last only, the fourth; a website at
  the first location alone is found; no website gives \<open>null\<close>.\<close>

theorem extractWebsite_priority_witness:
  "extractWebsite ex_place_e = JStr ''https://epsilon.example'' \<and>
   extractWebsite ex_place_d = JStr ''https://delta.example'' \<and>
   extractWebsite ex_place_a = JStr ''alpha.example'' \<and>
   extractWebsite ex_place_f = JStr ''zeta.example'' \<and>
   extractWebsite ex_place_b = JStr ''beta.example'' \<and>
   extractWebsite ex_place_c = JNull"
proof -
  note t = extractWebsite_priority [unfolded Let_def]
  have e: "extractWebsite ex_place_e = JStr ''https://epsilon.example''"
    using t [of ex_place_e] by (simp add: ex_place_e_def)
  have d: "extractWebsite ex_place_d = JStr ''https://delta.example''"
    using t [of ex_place_d] by (simp add: ex_place_d_def)
  have a: "extractWebsite ex_place_a = JStr ''alpha.example''"
    using t [of ex_place_a] by (simp add: ex_place_a_def)
  have f: "extractWebsite ex_place_f = JStr ''zeta.example''"
    using t [of ex_place_f] by (simp add: ex_place_f_def)
  have b: "extractWebsite ex_place_b = JStr ''beta.example''"
    using t [of ex_place_b] by (simp add: ex_place_b_def)
  have c: "extractWebsite ex_place_c = JNull"
    using t [of ex_place_c] by (simp add: ex_place_c_def)
  show ?thesis
    by (intro conjI e d a f b c)
qed

text \<open>
  C8. \<open>fetchNearbyCompanies\<close> always returns a value: the empty array whenever the body of
  its \<open>try\<close> throws, in particular when the provider's request fails. When the body
  succeeds, exactly one request has been issued, with the result limit 500 and a circle
  filter whose radius is the product \<open>radiusKm * 1000\<close>, as the arithmetic of doubles
  gives it. There is never more than one request.
\<close>

theorem fetchNearbyCompanies_never_raises:
  "(\<exists>fs. fst (fetchNearbyCompanies env lat lon radiusKm) = Inr fs) \<and>
   (isl (fst (fetchNearbyCompanies_try env lat lon radiusKm))
      \<longrightarrow> fst (fetchNearbyCompanies env lat lon radiusKm) = Inr (Some [])) \<and>
   ((\<forall>rq. isl (places_api env rq))
      \<longrightarrow> fst (fetchNearbyCompanies env lat lon radiusKm) = Inr (Some [])) \<and>
   (\<forall>fs. fst (fetchNearbyCompanies_try env lat lon radiusKm) = Inr fs \<longrightarrow>
      fst (fetchNearbyCompanies env lat lon radiusKm) = Inr fs \<and>
      (\<exists>flt bias.
         template (toString env)
           [Inl ''circle:'', Inr lon, Inl '','', Inr lat, Inl '','',
            Inr (JNum (times env radiusKm (Fin 1000)))] = Inr flt \<and>
         template (toString env) [Inl ''proximity:'', Inr lon, Inl '','', Inr lat] = Inr bias \<and>
         snd (fetchNearbyCompanies env lat lon radiusKm) =
           [\<lparr>rq_url = ''https://api.geoapify.com/v2/places'', rq_categories = ''commercial'',
             rq_filter = flt, rq_bias = bias, rq_limit = 500,
             rq_apiKey = GEOAPIFY_API_KEY\<rparr>])) \<and>
   length (snd (fetchNearbyCompanies env lat lon radiusKm)) \<le> 1"
proof (intro conjI)
  show "\<exists>fs. fst (fetchNearbyCompanies env lat lon radiusKm) = Inr fs"
    by (cases "fetchNearbyCompanies_try env lat lon radiusKm")
       (auto simp: fetchNearbyCompanies_def split: sum.splits)
  show "isl (fst (fetchNearbyCompanies_try env lat lon radiusKm))
      \<longrightarrow> fst (fetchNearbyCompanies env lat lon radiusKm) = Inr (Some [])"
    by (cases "fetchNearbyCompanies_try env lat lon radiusKm")
       (auto simp: fetchNearbyCompanies_def split: sum.splits)
  show "(\<forall>rq. isl (places_api env rq))
      \<longrightarrow> fst (fetchNearbyCompanies env lat lon radiusKm) = Inr (Some [])"
  proof
    assume a: "\<forall>rq. isl (places_api env rq)"
    have "isl (fst (fetchNearbyCompanies_try env lat lon radiusKm))"
      unfolding fetchNearbyCompanies_try_def Let_def
      using a by (auto split: sum.splits option.splits simp: isl_def) (metis Inl_Inr_False)
    then show "fst (fetchNearbyCompanies env lat lon radiusKm) = Inr (Some [])"
      by (cases "fetchNearbyCompanies_try env lat lon radiusKm")
         (auto simp: fetchNearbyCompanies_def split: sum.splits)
  qed
  show "\<forall>fs. fst (fetchNearbyCompanies_try env lat lon radiusKm) = Inr fs \<longrightarrow>
      fst (fetchNearbyCompanies env lat lon radiusKm) = Inr fs \<and>
      (\<exists>flt bias.
         template (toString env)
           [Inl ''circle:'', Inr lon, Inl '','', Inr lat, Inl '','',
            Inr (JNum (times env radiusKm (Fin 1000)))] = Inr flt \<and>
         template (toString env) [Inl ''proximity:'', Inr lon, Inl '','', Inr lat] = Inr bias \<and>
         snd (fetchNearbyCompanies env lat lon radiusKm) =
           [\<lparr>rq_url = ''https://api.geoapify.com/v2/places'', rq_categories = ''commercial'',
             rq_filter = flt, rq_bias = bias, rq_limit = 500,
             rq_apiKey = GEOAPIFY_API_KEY\<rparr>])"
    unfolding fetchNearbyCompanies_def fetchNearbyCompanies_try_def Let_def
    by (auto split: sum.splits option.splits)
  show "length (snd (fetchNearbyCompanies env lat lon radiusKm)) \<le> 1"
    unfolding fetchNearbyCompanies_def fetchNearbyCompanies_try_def Let_def
    by (auto split: sum.splits option.splits)
qed

theorem fetchNearbyCompanies_never_raises_witness:
  "fetchNearbyCompanies ex_env (JNum (Fin (5252 / 100))) (JNum (Fin (13405 / 1000))) (Fin 2) =
     (Inr (Some [ex_place_a, ex_place_b, ex_place_c]),
      [\<lparr>rq_url = ''https://api.geoapify.com/v2/places'', rq_categories = ''commercial'',
        rq_filter = ''circle:13.405,52.52,2000'', rq_bias = ''proximity:13.405,52.52'',
        rq_limit = 500, rq_apiKey = GEOAPIFY_API_KEY\<rparr>]) \<and>
   (\<forall>rq. isl (places_api ex_env_down rq)) \<and>
   fst (fetchNearbyCompanies ex_env_down (JNum (Fin (5252 / 100))) (JNum (Fin (13405 / 1000)))
          (Fin 2)) = Inr (Some [])"
proof -
  let ?lat = "JNum (Fin (5252 / 100))" and ?lon = "JNum (Fin (13405 / 1000))"
  have h1: "fst (fetchNearbyCompanies_try ex_env ?lat ?lon (Fin 2)) =
      Inr (Some [ex_place_a, ex_place_b, ex_place_c])"
    by code_simp
  have f: "template (toString ex_env)
      [Inl ''circle:'', Inr ?lon, Inl '','', Inr ?lat, Inl '','',
       Inr (JNum (times ex_env (Fin 2) (Fin 1000)))] = Inr ''circle:13.405,52.52,2000''"
    by code_simp
  have b: "template (toString ex_env) [Inl ''proximity:'', Inr ?lon, Inl '','', Inr ?lat]
      = Inr ''proximity:13.405,52.52''"
    by code_simp
  from fetchNearbyCompanies_never_raises [of ex_env ?lat ?lon "Fin 2"] h1
  have c1: "fst (fetchNearbyCompanies ex_env ?lat ?lon (Fin 2)) =
        Inr (Some [ex_place_a, ex_place_b, ex_place_c]) \<and>
      (\<exists>flt bias.
         template (toString ex_env)
           [Inl ''circle:'', Inr ?lon, Inl '','', Inr ?lat, Inl '','',
            Inr (JNum (times ex_env (Fin 2) (Fin 1000)))] = Inr flt \<and>
         template (toString ex_env) [Inl ''proximity:'', Inr ?lon, Inl '','', Inr ?lat]
           = Inr bias \<and>
         snd (fetchNearbyCompanies ex_env ?lat ?lon (Fin 2)) =
           [\<lparr>rq_url = ''https://api.geoapify.com/v2/places'', rq_categories = ''commercial'',
             rq_filter = flt, rq_bias = bias, rq_limit = 500,
             rq_apiKey = GEOAPIFY_API_KEY\<rparr>])"
    by blast
  then have r1: "fetchNearbyCompanies ex_env ?lat ?lon (Fin 2) =
     (Inr (Some [ex_place_a, ex_place_b, ex_place_c]),
      [\<lparr>rq_url = ''https://api.geoapify.com/v2/places'', rq_categories = ''commercial'',
        rq_filter = ''circle:13.405,52.52,2000'', rq_bias = ''proximity:13.405,52.52'',
        rq_limit = 500, rq_apiKey = GEOAPIFY_API_KEY\<rparr>])"
    unfolding f b by (auto simp: prod_eq_iff)
  have h2: "\<forall>rq. isl (places_api ex_env_down rq)"
    by (simp add: ex_env_down_def)
  from fetchNearbyCompanies_never_raises [of ex_env_down ?lat ?lon "Fin 2"] h2
  have c2: "fst (fetchNearbyCompanies ex_env_down ?lat ?lon (Fin 2)) = Inr (Some [])"
    by blast
  show ?thesis
    by (intro conjI r1 h2 c2)
qed

text \<open>
  C9. The URL is to be given the scheme \<open>https://\<close> exactly when it has none, and left as
  it is otherwise. The test is whether the text starts with \<open>http\<close>: a host name that
  starts with these letters is requested without a scheme, and a URL whose scheme is
  written in capitals, or is another scheme, gets a second one in front.
\<close>

theorem formatUrl_scheme_mismatch:
  "formatUrl ''httpbin.org/html'' = ''httpbin.org/html'' \<and>
   requested (snd (scrapeWebsite (\<lambda>u n. Inl err_404) ''httpbin.org/html''))
     = [''httpbin.org/html''] \<and>
   formatUrl ''HTTPS://example.com'' = ''https://HTTPS://example.com'' \<and>
   formatUrl ''ftp://example.com/info.html'' = ''https://ftp://example.com/info.html''"
  by code_simp

text \<open>
  C10. The records of a response are in the order of the places the provider returned: the
  places that pass the filter are a subsequence of the fetched ones, there is one record for
  each of them, and the record at a position is the one built from the place at that
  position, its scrape included.
\<close>

theorem pipeline_preserves_order:
  assumes "body (POST env request_json) = CompaniesBody recs"
  shows "\<exists>b latitude longitude radius radiusKm companies.
     request_json = Inr b \<and> destructure b ''latitude'' = Inr latitude \<and>
     destructure b ''longitude'' = Inr longitude \<and> destructure b ''radius'' = Inr radius \<and>
     radiusKm_of env radius = Inr radiusKm \<and>
     fst (fetchNearbyCompanies env latitude longitude radiusKm) = Inr (Some companies) \<and>
     subseq (filterCompaniesWithEmails companies) companies \<and>
     length recs = length (filterCompaniesWithEmails companies) \<and>
     (\<forall>i < length recs.
        processCompany env i (filterCompaniesWithEmails companies ! i) = Inr (recs ! i)) \<and>
     map cr_name recs = map (\<lambda>c. p_name (properties c)) (filterCompaniesWithEmails companies) \<and>
     map cr_address recs =
       map (\<lambda>c. p_formatted (properties c)) (filterCompaniesWithEmails companies) \<and>
     map cr_email recs = map extractEmail (filterCompaniesWithEmails companies) \<and>
     map cr_website recs = map extractWebsite (filterCompaniesWithEmails companies)"
proof -
  from assms obtain b latitude longitude radius radiusKm companies where
    rq: "request_json = Inr b" "destructure b ''latitude'' = Inr latitude"
      "destructure b ''longitude'' = Inr longitude" "destructure b ''radius'' = Inr radius"
      "radiusKm_of env radius = Inr radiusKm"
      "fst (fetchNearbyCompanies env latitude longitude radiusKm) = Inr (Some companies)"
    and p: "processCompanies env companies = Inr recs"
    using POST_companies by blast
  let ?kept = "filterCompaniesWithEmails companies"
  have s: "subseq ?kept companies"
    by (simp add: filterCompaniesWithEmails_def)
  have len: "length recs = length ?kept"
    using p by (rule processCompanies_Inr(1))
  have pos: "\<forall>i < length recs. processCompany env i (?kept ! i) = Inr (recs ! i)"
    using p by (rule processCompanies_Inr(2))
  have fields: "\<And>i. i < length recs \<Longrightarrow>
      cr_name (recs ! i) = p_name (properties (?kept ! i)) \<and>
      cr_address (recs ! i) = p_formatted (properties (?kept ! i)) \<and>
      cr_email (recs ! i) = extractEmail (?kept ! i) \<and>
      cr_website (recs ! i) = extractWebsite (?kept ! i)"
    using pos processCompany_fields by blast
  have n: "map cr_name recs = map (\<lambda>c. p_name (properties c)) ?kept"
    using len fields by (auto simp: list_eq_iff_nth_eq)
  have a: "map cr_address recs = map (\<lambda>c. p_formatted (properties c)) ?kept"
    using len fields by (auto simp: list_eq_iff_nth_eq)
  have e: "map cr_email recs = map extractEmail ?kept"
    using len fields by (auto simp: list_eq_iff_nth_eq)
  have w: "map cr_website recs = map extractWebsite ?kept"
    using len fields by (auto simp: list_eq_iff_nth_eq)
  show ?thesis
    using rq s len pos n a e w by blast
qed

theorem pipeline_preserves_order_witness:
  "body (POST ex_env ex_request) = CompaniesBody ex_records \<and>
   filterCompaniesWithEmails [ex_place_a, ex_place_b, ex_place_c] = [ex_place_a, ex_place_c] \<and>
   (\<exists>b latitude longitude radius radiusKm companies.
     ex_request = Inr b \<and> destructure b ''latitude'' = Inr latitude \<and>
     destructure b ''longitude'' = Inr longitude \<and> destructure b ''radius'' = Inr radius \<and>
     radiusKm_of ex_env radius = Inr radiusKm \<and>
     fst (fetchNearbyCompanies ex_env latitude longitude radiusKm) = Inr (Some companies) \<and>
     subseq (filterCompaniesWithEmails companies) companies \<and>
     length ex_records = length (filterCompaniesWithEmails companies) \<and>
     (\<forall>i < length ex_records.
        processCompany ex_env i (filterCompaniesWithEmails companies ! i)
          = Inr (ex_records ! i)) \<and>
     map cr_name ex_records =
       map (\<lambda>c. p_name (properties c)) (filterCompaniesWithEmails companies) \<and>
     map cr_address ex_records =
       map (\<lambda>c. p_formatted (properties c)) (filterCompaniesWithEmails companies) \<and>
     map cr_email ex_records = map extractEmail (filterCompaniesWithEmails companies) \<and>
     map cr_website ex_records = map extractWebsite (filterCompaniesWithEmails companies))"
proof -
  have h: "body (POST ex_env ex_request) = CompaniesBody ex_records"
    by code_simp
  have k: "filterCompaniesWithEmails [ex_place_a, ex_place_b, ex_place_c]
      = [ex_place_a, ex_place_c]"
    by code_simp
  show ?thesis
    by (intro conjI h k pipeline_preserves_order [OF h])
qed

end
